theory Spec2Isabelle
  imports Main
begin

section \<open>Data model of the sync job\<close>

text \<open>
  The development embeds \<^verbatim>\<open>src/content/sync/sync-job.ts\<close>. The module is an
  orchestration over collaborators that live outside it: the host application (items,
  preferences), the remote client (page update, page create, schema retrieval), the
  item-data helpers (stored page ID, synced tag, link attachment), the property builder,
  the DOM parser and the progress window. Every collaborator is a field of the record
  \<open>Env\<close>. Every call that has an effect is appended to the list \<open>calls\<close> of the
  world, and every call of \<^verbatim>\<open>Zotero.Items.get\<close> to the list \<open>lookups\<close>, in the order
  the code issues them. An awaited call may reject, so its model returns an error value;
  the other accessors of the host are reads of the world.
\<close>

text \<open>
  Item objects live in the host: a variable of type \<^verbatim>\<open>Zotero.Item\<close> is a reference to an
  object, and the reference is the item's ID (\<^verbatim>\<open>item.id\<close>), since the host hands out one
  object per ID. The state of an object is what the module reads of it: \<^verbatim>\<open>item.isNote()\<close>,
  \<^verbatim>\<open>item.parentID\<close> (\<open>None\<close> when the item has no parent), \<^verbatim>\<open>item.getNotes(false)\<close>,
  \<^verbatim>\<open>item.getNote()\<close>, and the transient field \<^verbatim>\<open>item.zotero_note\<close> (\<open>None\<close> until
  it is assigned).
\<close>

record Item =
  item_isNote :: bool
  item_parentID :: "nat option"
  item_getNotes :: "nat list"
  item_getNote :: string
  zotero_note :: "string option"

text \<open>The error codes of the remote client (\<^verbatim>\<open>APIErrorCode\<close> of the client library).\<close>

datatype APIErrorCode =
    Unauthorized
  | RestrictedResource
  | ObjectNotFound
  | RateLimited
  | InvalidJSON
  | InvalidRequestURL
  | InvalidRequest
  | ValidationError
  | ConflictError
  | InternalServerError
  | ServiceUnavailable

text \<open>
  A thrown value: the name and the message of the error object, and the code it carries
  when it is an error of the remote client (\<open>None\<close> otherwise).
\<close>

datatype js_error = Thrown (err_name: string) (err_message: string) (err_code: "APIErrorCode option")

text \<open>\<^verbatim>\<open>String(error)\<close> on an error object, as \<^verbatim>\<open>Error.prototype.toString\<close> computes it.\<close>

definition String_error :: "js_error \<Rightarrow> string" where
  "String_error e =
     (if err_name e = [] then err_message e
      else if err_message e = [] then err_name e
      else err_name e @ '': '' @ err_message e)"

text \<open>
  The response of a page update or create: the full page, which carries a URL, or the
  partial page returned to an integration without read access.
\<close>

datatype PageResponse =
    FullPage (page_id: string) (page_url: string)
  | PartialPage (page_id: string)

fun isFullPage :: "PageResponse \<Rightarrow> bool" where
  "isFullPage (FullPage _ _) = True"
| "isFullPage (PartialPage _) = False"

text \<open>
  Modelled from the spec: the enumeration \<^verbatim>\<open>PageTitleFormat\<close> of \<^verbatim>\<open>../prefs/notero-pref\<close>,
  which is not under src/. The module names one member, \<^verbatim>\<open>itemTitle\<close> (the "item title"
  mode of the spec); the others are told apart by their name.
\<close>

datatype PageTitleFormat = itemTitle | otherPageTitleFormat string

text \<open>The value of a host preference (\<open>None\<close> in the preference store is \<^verbatim>\<open>undefined\<close>).\<close>

datatype PrefValue = PrefString string | PrefNumber int | PrefBool bool

type_synonym DatabaseProperties = "(string \<times> string) list"
type_synonym PageProperties = "(string \<times> string) list"

text \<open>
  The error that \<^verbatim>\<open>perform\<close> throws: the original cause and the item of the iteration,
  a reference to the live object. Its message is computed by \<open>ItemSyncError_message\<close>
  below.
\<close>

record ItemSyncError =
  ise_cause :: js_error
  ise_item :: nat

text \<open>
  The calls issued to the collaborators. An item argument is the reference to the item.
\<close>

datatype event =
    Log string "string option"
  | ProgressWindow_new nat
  | ProgressWindow_updateText nat
  | ProgressWindow_updateProgress nat
  | ProgressWindow_complete
  | ProgressWindow_fail string "nat option"
  | Databases_retrieve string
  | Pages_update string PageProperties
  | Pages_create string PageProperties
  | SaveNotionTag nat
  | SaveNotionLinkAttachment nat string

text \<open>
  The calls of \<^verbatim>\<open>Zotero.Items.get\<close>: on an array of IDs, or on one ID (\<open>None\<close> when the
  argument is the \<^verbatim>\<open>parentID\<close> of an item without parent).
\<close>

datatype lookup = Items_get_array "nat list" | Items_get "nat option"

text \<open>
  The world: the state of every item object (an object has a state whether or not the
  host resolves its ID), the IDs that \<^verbatim>\<open>Zotero.Items\<close> resolves, the host's preferences,
  the lookups made and the calls issued so far.
\<close>

record World =
  item_state :: "nat \<Rightarrow> Item"
  Zotero_Items :: "nat set"
  Zotero_Prefs :: "string \<rightharpoonup> PrefValue"
  lookups :: "lookup list"
  calls :: "event list"

text \<open>
  The collaborators. A function that takes the world answers from the world as it is
  when the call is issued: it reads the state of the item it is given there, and its
  answer may depend on every earlier call.
  \<^item> \<open>APA_STYLE\<close>: the constant of \<^verbatim>\<open>../constants\<close>;
  \<^item> \<open>getNotionClient\<close>: \<open>Some e\<close> when building the client throws \<open>e\<close>;
  \<^item> \<open>getRequiredNoteroPref_notionDatabaseID\<close>: the required preference, or the error
    thrown when it is missing;
  \<^item> \<open>getNoteroPref_pageTitleFormat\<close>: the stored preference, \<open>None\<close> when falsy;
  \<^item> \<open>notion_databases_retrieve\<close>: the \<^verbatim>\<open>properties\<close> of the retrieved database;
  \<^item> \<open>getNotionPageID\<close>: the stored page ID of an item, \<open>None\<close> for \<^verbatim>\<open>undefined\<close>;
  \<^item> \<open>isNotionErrorWithCode\<close>: the test of \<^verbatim>\<open>./notion-utils\<close> that a thrown value is an
    error of the remote client with the given code;
  \<^item> \<open>saveNotionTag\<close>, \<open>saveNotionLinkAttachment\<close>: \<open>Some e\<close> when the call rejects;
  \<^item> \<open>body_textContent\<close>: \<^verbatim>\<open>parseFromString(html, 'text/html').body.textContent\<close>,
    \<open>None\<close> for \<^verbatim>\<open>null\<close>;
  \<^item> \<open>error_stack\<close>: \<^verbatim>\<open>cause.stack\<close> when \<^verbatim>\<open>hasErrorStack(cause)\<close> holds.
\<close>

record Env =
  APA_STYLE :: string
  getNotionClient :: "World \<Rightarrow> js_error option"
  getRequiredNoteroPref_notionDatabaseID :: "World \<Rightarrow> js_error + string"
  getNoteroPref_pageTitleFormat :: "World \<Rightarrow> PageTitleFormat option"
  notion_databases_retrieve :: "World \<Rightarrow> string \<Rightarrow> js_error + DatabaseProperties"
  getNotionPageID :: "World \<Rightarrow> nat \<Rightarrow> string option"
  buildProperties ::
    "World \<Rightarrow> string \<Rightarrow> DatabaseProperties \<Rightarrow> nat \<Rightarrow> PageTitleFormat \<Rightarrow> js_error + PageProperties"
  notion_pages_update :: "World \<Rightarrow> string \<Rightarrow> PageProperties \<Rightarrow> js_error + PageResponse"
  notion_pages_create :: "World \<Rightarrow> string \<Rightarrow> PageProperties \<Rightarrow> js_error + PageResponse"
  isNotionErrorWithCode :: "js_error \<Rightarrow> APIErrorCode \<Rightarrow> bool"
  saveNotionTag :: "World \<Rightarrow> nat \<Rightarrow> js_error option"
  saveNotionLinkAttachment :: "World \<Rightarrow> nat \<Rightarrow> string \<Rightarrow> js_error option"
  convertWebURLToAppURL :: "string \<Rightarrow> string"
  body_textContent :: "string \<Rightarrow> string option"
  error_stack :: "js_error \<Rightarrow> string option"

text \<open>
  The fields of the class \<^verbatim>\<open>SyncJob\<close>; the items are references. The client handle and
  the progress window are the collaborators of \<open>Env\<close>.
\<close>

record SyncJob =
  citationFormat :: string
  databaseID :: string
  databaseProperties :: DatabaseProperties
  job_items :: "nat list"
  pageTitleFormat :: PageTitleFormat

section \<open>Helpers\<close>

definition issue :: "event \<Rightarrow> World \<Rightarrow> World" where
  "issue ev w = w\<lparr>calls := calls w @ [ev]\<rparr>"

text \<open>\<^verbatim>\<open>log(message)\<close> and \<^verbatim>\<open>log(message, 'error')\<close>.\<close>

definition log :: "string \<Rightarrow> string option \<Rightarrow> World \<Rightarrow> World" where
  "log message level w = issue (Log message level) w"

text \<open>A number inside a template literal: its decimal digits.\<close>

fun String_nat :: "nat \<Rightarrow> string" where
  "String_nat n =
     (if n < 10 then [char_of (48 + n)]
      else String_nat (n div 10) @ [char_of (48 + n mod 10)])"

declare String_nat.simps [simp del]

text \<open>
  \<^verbatim>\<open>Zotero.Items.get(id)\<close>: the call is recorded; the result is the item, or nothing when
  the ID does not resolve.
\<close>

definition Zotero_Items_get :: "nat option \<Rightarrow> World \<Rightarrow> nat option \<times> World" where
  "Zotero_Items_get i w =
     (let found = (case i of
                     Some n \<Rightarrow> if n \<in> Zotero_Items w then Some n else None
                   | None \<Rightarrow> None)
      in (found, w\<lparr>lookups := lookups w @ [Items_get i]\<rparr>))"

text \<open>
  \<^verbatim>\<open>Zotero.Items.get(ids)\<close> on an array: the call is recorded; the result is the items
  that resolve, in the order of the IDs.
\<close>

definition Zotero_Items_get_array :: "nat list \<Rightarrow> World \<Rightarrow> nat list \<times> World" where
  "Zotero_Items_get_array ids w =
     (filter (\<lambda>n. n \<in> Zotero_Items w) ids, w\<lparr>lookups := lookups w @ [Items_get_array ids]\<rparr>)"

section \<open>The module\<close>

subsection \<open>getCitationFormat, getPageTitleFormat, retrieveDatabaseProperties\<close>

definition getCitationFormat :: "Env \<Rightarrow> World \<Rightarrow> string" where
  "getCitationFormat env w =
     (case Zotero_Prefs w ''export.quickCopy.setting'' of
        Some (PrefString format) \<Rightarrow> if format \<noteq> [] then format else APA_STYLE env
      | _ \<Rightarrow> APA_STYLE env)"

definition getPageTitleFormat :: "Env \<Rightarrow> World \<Rightarrow> PageTitleFormat" where
  "getPageTitleFormat env w =
     (case getNoteroPref_pageTitleFormat env w of
        Some format \<Rightarrow> format
      | None \<Rightarrow> itemTitle)"

definition retrieveDatabaseProperties ::
    "Env \<Rightarrow> string \<Rightarrow> World \<Rightarrow> (js_error + DatabaseProperties) \<times> World" where
  "retrieveDatabaseProperties env dbID w =
     (notion_databases_retrieve env w dbID, issue (Databases_retrieve dbID) w)"

subsection \<open>prepareSyncJob\<close>

definition prepareSyncJob :: "Env \<Rightarrow> nat list \<Rightarrow> World \<Rightarrow> (js_error + SyncJob) \<times> World" where
  "prepareSyncJob env items w =
     (case getNotionClient env w of
        Some error \<Rightarrow> (Inl error, w)
      | None \<Rightarrow>
         (case getRequiredNoteroPref_notionDatabaseID env w of
            Inl error \<Rightarrow> (Inl error, w)
          | Inr dbID \<Rightarrow>
             (case retrieveDatabaseProperties env dbID w of
                (Inl error, w1) \<Rightarrow> (Inl error, w1)
              | (Inr dbProperties, w1) \<Rightarrow>
                  (Inr \<lparr>citationFormat = getCitationFormat env w1,
                        databaseID = dbID,
                        databaseProperties = dbProperties,
                        job_items = items,
                        pageTitleFormat = getPageTitleFormat env w1\<rparr>, w1))))"

subsection \<open>ItemSyncError\<close>

definition ItemSyncError_message :: "ItemSyncError \<Rightarrow> string" where
  "ItemSyncError_message e =
     ''Failed to sync item with ID '' @ String_nat (ise_item e) @
     '' due to '' @ String_error (ise_cause e)"

definition new_ItemSyncError :: "js_error \<Rightarrow> nat \<Rightarrow> ItemSyncError" where
  "new_ItemSyncError cause item = \<lparr>ise_cause = cause, ise_item = item\<rparr>"

subsection \<open>SyncJob.saveItemToDatabase\<close>

text \<open>The create call under the configured database parent.\<close>

definition pages_create ::
    "Env \<Rightarrow> SyncJob \<Rightarrow> PageProperties \<Rightarrow> World \<Rightarrow> (js_error + PageResponse) \<times> World" where
  "pages_create env job properties w =
     (notion_pages_create env w (databaseID job) properties,
      issue (Pages_create (databaseID job) properties) w)"

text \<open>
  \<^verbatim>\<open>if (pageID)\<close> holds for a string that is not empty. An update that throws the
  object-not-found code leaves the \<^verbatim>\<open>try\<close> and the \<^verbatim>\<open>if\<close>, and the create call follows.
\<close>

definition saveItemToDatabase ::
    "Env \<Rightarrow> SyncJob \<Rightarrow> nat \<Rightarrow> World \<Rightarrow> (js_error + PageResponse) \<times> World" where
  "saveItemToDatabase env job item w =
     (let pageID = getNotionPageID env w item in
      case buildProperties env w (citationFormat job) (databaseProperties job) item
             (pageTitleFormat job) of
        Inl error \<Rightarrow> (Inl error, w)
      | Inr properties \<Rightarrow>
         (case pageID of
            None \<Rightarrow> pages_create env job properties w
          | Some pid \<Rightarrow>
             if pid = [] then pages_create env job properties w
             else
               (let w1 = issue (Pages_update pid properties) w in
                case notion_pages_update env w pid properties of
                  Inr response \<Rightarrow> (Inr response, w1)
                | Inl error \<Rightarrow>
                    if \<not> isNotionErrorWithCode env error ObjectNotFound then (Inl error, w1)
                    else pages_create env job properties w1)))"

subsection \<open>SyncJob.syncRegularItem\<close>

definition read_capability_message :: string where
  \<open>read_capability_message =
     ''Failed to create Notion link attachment. '' @
     ''This will result in duplicate Notion pages. '' @
     ''Please ensure that the "read content" capability is enabled '' @
     ''for the Notero integration at www.notion.so/my-integrations.''\<close>

definition new_Error :: "string \<Rightarrow> js_error" where
  "new_Error message = Thrown ''Error'' message None"

definition syncRegularItem :: "Env \<Rightarrow> SyncJob \<Rightarrow> nat \<Rightarrow> World \<Rightarrow> (js_error + unit) \<times> World" where
  "syncRegularItem env job item w =
     (case saveItemToDatabase env job item w of
        (Inl error, w1) \<Rightarrow> (Inl error, w1)
      | (Inr response, w1) \<Rightarrow>
         (let w2 = issue (SaveNotionTag item) w1 in
          case saveNotionTag env w1 item of
            Some error \<Rightarrow> (Inl error, w2)
          | None \<Rightarrow>
              if isFullPage response then
                (let appURL = convertWebURLToAppURL env (page_url response);
                     w3 = issue (SaveNotionLinkAttachment item appURL) w2 in
                 case saveNotionLinkAttachment env w2 item appURL of
                   Some error \<Rightarrow> (Inl error, w3)
                 | None \<Rightarrow> (Inr (), w3))
              else (Inl (new_Error read_capability_message), w2)))"

subsection \<open>SyncJob.sanitize and SyncJob.syncItemAndNotes\<close>

text \<open>\<^verbatim>\<open>doc.body.textContent || ''\<close>: \<^verbatim>\<open>null\<close> and the empty string both give the empty string.\<close>

definition sanitize :: "Env \<Rightarrow> string \<Rightarrow> string" where
  "sanitize env html =
     (case body_textContent env html of
        None \<Rightarrow> []
      | Some t \<Rightarrow> if t = [] then [] else t)"

text \<open>
  The separator \<^verbatim>\<open>'\n---\n'\<close>; the loop over \<^verbatim>\<open>item.getNotes(false)\<close>, with
  \<open>text\<close> the accumulator. Every note ID is looked up; one that does not resolve leaves
  the accumulator as it is. \<^verbatim>\<open>noteItem.getNote() || ''\<close> is the note's content: the only
  falsy string is the empty one.
\<close>

definition note_separator :: string where
  "note_separator = [CHR 0x0A, CHR ''-'', CHR ''-'', CHR ''-'', CHR 0x0A]"

fun notes_loop :: "World \<Rightarrow> string \<Rightarrow> nat list \<Rightarrow> string \<times> World" where
  "notes_loop w text [] = (text, w)"
| "notes_loop w text (noteID # noteIDs) =
     (case Zotero_Items_get (Some noteID) w of
        (Some noteItem, w1) \<Rightarrow>
          notes_loop w1 ((text @ item_getNote (item_state w1 noteItem)) @ note_separator) noteIDs
      | (None, w1) \<Rightarrow> notes_loop w1 text noteIDs)"

text \<open>The assignment \<^verbatim>\<open>item.zotero_note = ...\<close> changes the state of the item object.\<close>

definition assign_zotero_note :: "nat \<Rightarrow> string \<Rightarrow> World \<Rightarrow> World" where
  "assign_zotero_note item text w =
     w\<lparr>item_state := (item_state w)(item := (item_state w item)\<lparr>zotero_note := Some text\<rparr>)\<rparr>"

definition syncItemAndNotes :: "Env \<Rightarrow> SyncJob \<Rightarrow> nat \<Rightarrow> World \<Rightarrow> (js_error + unit) \<times> World" where
  "syncItemAndNotes env job item w =
     (case notes_loop w [] (item_getNotes (item_state w item)) of
        (text, w1) \<Rightarrow>
          syncRegularItem env job item (assign_zotero_note item (sanitize env text) w1))"

subsection \<open>SyncJob.perform\<close>

text \<open>The body of the \<^verbatim>\<open>try\<close> block of one iteration.\<close>

definition perform_try :: "Env \<Rightarrow> SyncJob \<Rightarrow> nat \<Rightarrow> World \<Rightarrow> (js_error + unit) \<times> World" where
  "perform_try env job item w =
     (if item_isNote (item_state w item) then
        (case Zotero_Items_get (item_parentID (item_state w item)) w of
           (Some parent, w1) \<Rightarrow> syncItemAndNotes env job parent w1
         | (None, w1) \<Rightarrow> (Inr (), w1))
      else syncItemAndNotes env job item w)"

text \<open>What an iteration does before the \<^verbatim>\<open>try\<close> block: the log line and the progress text.\<close>

definition perform_begin :: "SyncJob \<Rightarrow> nat \<Rightarrow> nat \<Rightarrow> World \<Rightarrow> World" where
  "perform_begin job index item w =
     (let step = index + 1;
          w1 = log (''Syncing item '' @ String_nat step @ '' of '' @
                    String_nat (length (job_items job)) @ '' with ID '' @
                    String_nat item) None w
      in issue (ProgressWindow_updateText step) w1)"

text \<open>
  The loop over \<^verbatim>\<open>this.items.entries()\<close>, from the given index on. The error thrown
  carries the reference to the item of the iteration; the state of that item is the one
  of the world returned with the error.
\<close>

fun perform_loop ::
    "Env \<Rightarrow> SyncJob \<Rightarrow> nat \<Rightarrow> nat list \<Rightarrow> World \<Rightarrow> (ItemSyncError + unit) \<times> World" where
  "perform_loop env job index [] w = (Inr (), w)"
| "perform_loop env job index (item # rest) w =
     (case perform_try env job item (perform_begin job index item w) of
        (Inl error, w1) \<Rightarrow> (Inl (new_ItemSyncError error item), w1)
      | (Inr u, w1) \<Rightarrow>
          perform_loop env job (index + 1) rest
            (issue (ProgressWindow_updateProgress (index + 1)) w1))"

definition perform :: "Env \<Rightarrow> SyncJob \<Rightarrow> World \<Rightarrow> (ItemSyncError + unit) \<times> World" where
  "perform env job w = perform_loop env job 0 (job_items job) w"

subsection \<open>performSyncJob\<close>

text \<open>
  The \<^verbatim>\<open>catch\<close> block: \<open>cause\<close> and \<open>failedItem\<close> are what the block holds after the
  \<^verbatim>\<open>instanceof\<close> test.
\<close>

definition performSyncJob_catch :: "Env \<Rightarrow> js_error \<Rightarrow> nat option \<Rightarrow> World \<Rightarrow> World" where
  "performSyncJob_catch env cause failedItem w =
     (let errorMessage = String_error cause;
          w1 = log errorMessage (Some ''error'') w;
          w2 = (case error_stack env cause of
                  Some stack \<Rightarrow> log stack (Some ''error'') w1
                | None \<Rightarrow> w1)
      in issue (ProgressWindow_fail errorMessage failedItem) w2)"

text \<open>
  The set of item IDs is the list of its members in insertion order. The lookup is made
  before the test for emptiness.
\<close>

definition performSyncJob :: "Env \<Rightarrow> nat list \<Rightarrow> World \<Rightarrow> World" where
  "performSyncJob env itemIDs w =
     (case Zotero_Items_get_array itemIDs w of
        (items, w0) \<Rightarrow>
          if length items = 0 then w0
          else
            (let w1 = issue (ProgressWindow_new (length items)) w0 in
             case prepareSyncJob env items w1 of
               (Inl error, w2) \<Rightarrow> performSyncJob_catch env error None w2
             | (Inr syncJob, w2) \<Rightarrow>
                (case perform env syncJob w2 of
                   (Inl error, w3) \<Rightarrow>
                     performSyncJob_catch env (ise_cause error) (Some (ise_item error)) w3
                 | (Inr u, w3) \<Rightarrow> issue ProgressWindow_complete w3)))"

section \<open>Vocabulary of the properties\<close>

text \<open>Whether a call to the remote client failed with the given error code.\<close>

definition failed_with_code :: "Env \<Rightarrow> js_error + PageResponse \<Rightarrow> APIErrorCode \<Rightarrow> bool" where
  "failed_with_code env r code =
     (case r of Inl error \<Rightarrow> isNotionErrorWithCode env error code | Inr response \<Rightarrow> False)"

text \<open>The calls that write a page, and the calls that save a link attachment.\<close>

fun is_page_write :: "event \<Rightarrow> bool" where
  "is_page_write (Pages_update pid properties) = True"
| "is_page_write (Pages_create dbID properties) = True"
| "is_page_write ev = False"

fun is_link_attachment :: "event \<Rightarrow> bool" where
  "is_link_attachment (SaveNotionLinkAttachment i url) = True"
| "is_link_attachment ev = False"

text \<open>The item a call of the item-data helpers is made on.\<close>

fun event_item :: "event \<Rightarrow> nat option" where
  "event_item (SaveNotionTag i) = Some i"
| "event_item (SaveNotionLinkAttachment i url) = Some i"
| "event_item ev = None"

text \<open>The transient note field of the item with the given ID.\<close>

definition stored_zotero_note :: "World \<Rightarrow> nat \<Rightarrow> string option" where
  "stored_zotero_note w i = zotero_note (item_state w i)"

text \<open>The attached notes of an item that resolve, in the order of the listing.\<close>

definition resolved_notes :: "World \<Rightarrow> nat \<Rightarrow> nat list" where
  "resolved_notes w item = filter (\<lambda>n. n \<in> Zotero_Items w) (item_getNotes (item_state w item))"

text \<open>
  The note text as the code builds it: the content of every attached note that resolves,
  in the order of the listing, each followed by the separator.
\<close>

definition terminated_note_text :: "World \<Rightarrow> nat \<Rightarrow> string" where
  "terminated_note_text w item =
     concat (map (\<lambda>noteItem. item_getNote (item_state w noteItem) @ note_separator)
       (resolved_notes w item))"

text \<open>
  The note text in the words of the specification: the notes joined, with the separator
  between one note and the next. The specification can be read in two ways, the plain
  text of each note joined, or the plain text of the joined notes.
\<close>

fun join_with :: "string \<Rightarrow> string list \<Rightarrow> string" where
  "join_with sep [] = []"
| "join_with sep [x] = x"
| "join_with sep (x # y # ys) = x @ sep @ join_with sep (y # ys)"

definition spec_joined_plain_text :: "Env \<Rightarrow> World \<Rightarrow> nat \<Rightarrow> string" where
  "spec_joined_plain_text env w item =
     join_with note_separator
       (map (\<lambda>noteItem. sanitize env (item_getNote (item_state w noteItem)))
         (resolved_notes w item))"

definition spec_plain_text_of_joined :: "Env \<Rightarrow> World \<Rightarrow> nat \<Rightarrow> string" where
  "spec_plain_text_of_joined env w item =
     sanitize env (join_with note_separator
       (map (\<lambda>noteItem. item_getNote (item_state w noteItem)) (resolved_notes w item)))"

section \<open>A concrete environment\<close>

text \<open>
  A small library and a remote workspace, on which the theorems below are instantiated.
  Item 1 has a live remote page, item 2 a page that was deleted remotely, item 3 a page
  whose update is rate limited, items 4 to 6 have no stored page. The remote answers a
  create with a partial page when the note text is \<open>hidden\<close>. The parser drops what
  stands between \<open><\<close> and \<open>>\<close>.
\<close>

fun demo_strip :: "bool \<Rightarrow> string \<Rightarrow> string" where
  "demo_strip in_tag [] = []"
| "demo_strip in_tag (c # cs) =
     (if c = CHR ''<'' then demo_strip True cs
      else if in_tag then demo_strip (c \<noteq> CHR ''>'') cs
      else c # demo_strip False cs)"

definition demo_env :: Env where
  "demo_env =
     \<lparr>APA_STYLE = ''bibliography=http://www.zotero.org/styles/apa'',
      getNotionClient = (\<lambda>w. None),
      getRequiredNoteroPref_notionDatabaseID = (\<lambda>w. Inr ''db''),
      getNoteroPref_pageTitleFormat = (\<lambda>w. None),
      notion_databases_retrieve = (\<lambda>w dbID. Inr [(''Name'', ''title'')]),
      getNotionPageID = (\<lambda>w item.
        if item = 1 then Some ''p1''
        else if item = 2 then Some ''gone''
        else if item = 3 then Some ''busy''
        else None),
      buildProperties = (\<lambda>w format dbProperties item titleFormat.
        Inr [(''Notes'', case zotero_note (item_state w item) of Some t \<Rightarrow> t | None \<Rightarrow> [])]),
      notion_pages_update = (\<lambda>w pid properties.
        if pid = ''gone''
        then Inl (Thrown ''APIResponseError'' ''Could not find page'' (Some ObjectNotFound))
        else if pid = ''busy''
        then Inl (Thrown ''APIResponseError'' ''Rate limited'' (Some RateLimited))
        else Inr (FullPage pid (''https://www.notion.so/'' @ pid))),
      notion_pages_create = (\<lambda>w dbID properties.
        if properties = [(''Notes'', ''hidden'' @ note_separator)] then Inr (PartialPage ''new'')
        else Inr (FullPage ''new'' ''https://www.notion.so/new'')),
      isNotionErrorWithCode = (\<lambda>error code. err_code error = Some code),
      saveNotionTag = (\<lambda>w item. None),
      saveNotionLinkAttachment = (\<lambda>w item url. None),
      convertWebURLToAppURL = (\<lambda>url. ''notion'' @ drop 5 url),
      body_textContent = (\<lambda>html. Some (demo_strip False html)),
      error_stack = (\<lambda>error. None)\<rparr>"

definition demo_regular :: "nat list \<Rightarrow> Item" where
  "demo_regular noteIDs =
     \<lparr>item_isNote = False, item_parentID = None, item_getNotes = noteIDs,
      item_getNote = [], zotero_note = None\<rparr>"

definition demo_note :: "nat \<Rightarrow> string \<Rightarrow> Item" where
  "demo_note parent html =
     \<lparr>item_isNote = True, item_parentID = Some parent, item_getNotes = [],
      item_getNote = html, zotero_note = None\<rparr>"

definition demo_state :: "nat \<Rightarrow> Item" where
  "demo_state =
     (\<lambda>i. demo_regular [])
       (4 := demo_regular [10, 99, 11], 5 := demo_regular [12], 6 := demo_regular [13],
        10 := demo_note 4 ''<p>first</p>'', 11 := demo_note 4 ''second'',
        12 := demo_note 5 ''hidden'', 13 := demo_note 6 ''abc'',
        20 := demo_note 21 ''orphan'')"

definition demo_world :: World where
  "demo_world =
     \<lparr>item_state = demo_state, Zotero_Items = {1, 2, 3, 4, 5, 6, 10, 11, 12, 13, 20},
      Zotero_Prefs = Map.empty, lookups = [], calls = []\<rparr>"

definition demo_job :: "nat list \<Rightarrow> SyncJob" where
  "demo_job items =
     \<lparr>citationFormat = ''bibliography=http://www.zotero.org/styles/apa'', databaseID = ''db'',
      databaseProperties = [(''Name'', ''title'')], job_items = items,
      pageTitleFormat = itemTitle\<rparr>"

text \<open>
  The world in which the note text of item 5 is assigned; worlds with a quick-copy
  preference; the error of a rate-limited update; an environment whose tag call rejects.
\<close>

definition demo_hidden_world :: World where
  "demo_hidden_world = assign_zotero_note 5 (''hidden'' @ note_separator) demo_world"

definition demo_prefs_world :: "PrefValue option \<Rightarrow> World" where
  "demo_prefs_world v =
     demo_world\<lparr>Zotero_Prefs := (\<lambda>key. if key = ''export.quickCopy.setting'' then v else None)\<rparr>"

definition demo_ieee :: string where
  "demo_ieee = ''bibliography=http://www.zotero.org/styles/ieee''"

definition demo_rate_limited :: js_error where
  "demo_rate_limited = Thrown ''APIResponseError'' ''Rate limited'' (Some RateLimited)"

definition demo_tag_error :: js_error where
  "demo_tag_error = Thrown ''Error'' ''database is locked'' None"

definition demo_env_tag_rejects :: Env where
  "demo_env_tag_rejects = demo_env\<lparr>saveNotionTag := (\<lambda>w item. Some demo_tag_error)\<rparr>"

text \<open>A batch of three regular items, the second of which is rate limited.\<close>

definition demo_batch :: "nat list" where
  "demo_batch = [1, 3, 4]"

section \<open>Basic facts\<close>

lemma issue_simps [simp]:
  "item_state (issue ev w) = item_state w"
  "Zotero_Items (issue ev w) = Zotero_Items w"
  "Zotero_Prefs (issue ev w) = Zotero_Prefs w"
  "lookups (issue ev w) = lookups w"
  "calls (issue ev w) = calls w @ [ev]"
  by (simp_all add: issue_def)

lemma log_simps [simp]:
  "item_state (log message level w) = item_state w"
  "Zotero_Items (log message level w) = Zotero_Items w"
  "Zotero_Prefs (log message level w) = Zotero_Prefs w"
  "lookups (log message level w) = lookups w"
  "calls (log message level w) = calls w @ [Log message level]"
  by (simp_all add: log_def)

lemma perform_begin_simps [simp]:
  "item_state (perform_begin job index item w) = item_state w"
  "Zotero_Items (perform_begin job index item w) = Zotero_Items w"
  "Zotero_Prefs (perform_begin job index item w) = Zotero_Prefs w"
  "lookups (perform_begin job index item w) = lookups w"
  by (simp_all add: perform_begin_def Let_def)

lemma assign_zotero_note_simps [simp]:
  "item_state (assign_zotero_note item t w) =
     (item_state w)(item := (item_state w item)\<lparr>zotero_note := Some t\<rparr>)"
  "Zotero_Items (assign_zotero_note item t w) = Zotero_Items w"
  "Zotero_Prefs (assign_zotero_note item t w) = Zotero_Prefs w"
  "lookups (assign_zotero_note item t w) = lookups w"
  "calls (assign_zotero_note item t w) = calls w"
  by (simp_all add: assign_zotero_note_def)

lemma Zotero_Items_get_simps [simp]:
  "fst (Zotero_Items_get i w) =
     (case i of Some n \<Rightarrow> if n \<in> Zotero_Items w then Some n else None | None \<Rightarrow> None)"
  "snd (Zotero_Items_get i w) = w\<lparr>lookups := lookups w @ [Items_get i]\<rparr>"
  by (simp_all add: Zotero_Items_get_def Let_def)

lemma pages_create_simps [simp]:
  "fst (pages_create env job properties w) = notion_pages_create env w (databaseID job) properties"
  "snd (pages_create env job properties w) = issue (Pages_create (databaseID job) properties) w"
  by (simp_all add: pages_create_def)

subsection \<open>The upsert\<close>

lemma saveItemToDatabase_world:
  "\<exists>evs. snd (saveItemToDatabase env job item w) = w\<lparr>calls := calls w @ evs\<rparr> \<and>
         list_all is_page_write evs"
proof (cases "buildProperties env w (citationFormat job) (databaseProperties job) item
                (pageTitleFormat job)")
  case (Inl error)
  then have "snd (saveItemToDatabase env job item w) = w\<lparr>calls := calls w @ []\<rparr>"
    by (simp add: saveItemToDatabase_def)
  then show ?thesis by (intro exI [of _ "[]"]) simp
next
  case (Inr properties)
  let ?create = "Pages_create (databaseID job) properties"
  show ?thesis
  proof (cases "getNotionPageID env w item")
    case None
    with Inr have "snd (saveItemToDatabase env job item w) = w\<lparr>calls := calls w @ [?create]\<rparr>"
      by (simp add: saveItemToDatabase_def issue_def)
    then show ?thesis by (intro exI [of _ "[?create]"]) simp
  next
    case (Some pid)
    let ?update = "Pages_update pid properties"
    from Inr Some have
      "snd (saveItemToDatabase env job item w) = w\<lparr>calls := calls w @ [?create]\<rparr> \<or>
       snd (saveItemToDatabase env job item w) = w\<lparr>calls := calls w @ [?update]\<rparr> \<or>
       snd (saveItemToDatabase env job item w) = w\<lparr>calls := calls w @ [?update, ?create]\<rparr>"
      by (simp add: saveItemToDatabase_def issue_def Let_def split: sum.splits)
    then show ?thesis
      by (elim disjE)
         ((rule exI [of _ "[?create]"], simp), (rule exI [of _ "[?update]"], simp),
          (rule exI [of _ "[?update, ?create]"], simp))
  qed
qed

lemma saveItemToDatabase_link_attachments:
  "filter is_link_attachment (calls (snd (saveItemToDatabase env job item w))) =
   filter is_link_attachment (calls w)"
proof -
  obtain evs where w1: "snd (saveItemToDatabase env job item w) = w\<lparr>calls := calls w @ evs\<rparr>"
    and evs: "list_all is_page_write evs"
    using saveItemToDatabase_world by blast
  have "\<not> is_link_attachment ev" if "is_page_write ev" for ev
    using that by (cases ev) simp_all
  with evs have "filter is_link_attachment evs = []"
    by (simp add: list_all_iff filter_empty_conv)
  with w1 show ?thesis by simp
qed

lemma saveItemToDatabase_stored_update:
  assumes "getNotionPageID env w item = Some pid" and "pid \<noteq> []"
    and "buildProperties env w (citationFormat job) (databaseProperties job) item
           (pageTitleFormat job) = Inr properties"
  shows "saveItemToDatabase env job item w =
           (case notion_pages_update env w pid properties of
              Inr response \<Rightarrow> (Inr response, issue (Pages_update pid properties) w)
            | Inl error \<Rightarrow>
                if isNotionErrorWithCode env error ObjectNotFound
                then pages_create env job properties (issue (Pages_update pid properties) w)
                else (Inl error, issue (Pages_update pid properties) w))"
  using assms by (simp add: saveItemToDatabase_def split: sum.splits)

subsection \<open>The sync of one item\<close>

lemma syncRegularItem_after_upsert:
  assumes "saveItemToDatabase env job item w = (Inr response, w1)"
    and "saveNotionTag env w1 item = None"
  shows "syncRegularItem env job item w =
           (if isFullPage response
            then (case saveNotionLinkAttachment env (issue (SaveNotionTag item) w1) item
                         (convertWebURLToAppURL env (page_url response)) of
                    Some error \<Rightarrow> Inl error | None \<Rightarrow> Inr (),
                  issue (SaveNotionLinkAttachment item
                           (convertWebURLToAppURL env (page_url response)))
                    (issue (SaveNotionTag item) w1))
            else (Inl (new_Error read_capability_message), issue (SaveNotionTag item) w1))"
  using assms by (simp add: syncRegularItem_def Let_def split: option.splits)

lemma syncRegularItem_tag_rejects:
  assumes "saveItemToDatabase env job item w = (Inr response, w1)"
    and "saveNotionTag env w1 item = Some error"
  shows "syncRegularItem env job item w = (Inl error, issue (SaveNotionTag item) w1)"
  using assms by (simp add: syncRegularItem_def Let_def)

lemma syncRegularItem_world:
  "\<exists>evs. snd (syncRegularItem env job item w) = w\<lparr>calls := calls w @ evs\<rparr> \<and>
         list_all (\<lambda>ev. event_item ev = None \<or> event_item ev = Some item) evs"
proof -
  let ?ok = "\<lambda>ev. event_item ev = None \<or> event_item ev = Some item"
  obtain r w1 where up: "saveItemToDatabase env job item w = (r, w1)"
    by (cases "saveItemToDatabase env job item w")
  obtain evs where w1: "w1 = w\<lparr>calls := calls w @ evs\<rparr>" and evs: "list_all is_page_write evs"
    using saveItemToDatabase_world [of env job item w] up by auto
  have "event_item ev = None" if "is_page_write ev" for ev
    using that by (cases ev) simp_all
  with evs have ok: "list_all ?ok evs"
    by (simp add: list_all_iff)
  let ?tag = "SaveNotionTag item"
  have "\<exists>more. snd (syncRegularItem env job item w) = w1\<lparr>calls := calls w1 @ more\<rparr> \<and>
          list_all ?ok more"
  proof (cases r)
    case (Inl error)
    with up have "snd (syncRegularItem env job item w) = w1\<lparr>calls := calls w1 @ []\<rparr>"
      by (simp add: syncRegularItem_def)
    then show ?thesis by (intro exI [of _ "[]"]) simp
  next
    case (Inr response)
    let ?link = "SaveNotionLinkAttachment item (convertWebURLToAppURL env (page_url response))"
    from up Inr have
      "snd (syncRegularItem env job item w) = w1\<lparr>calls := calls w1 @ [?tag]\<rparr> \<or>
       snd (syncRegularItem env job item w) = w1\<lparr>calls := calls w1 @ [?tag, ?link]\<rparr>"
      by (simp add: syncRegularItem_def issue_def Let_def split: option.splits)
    then show ?thesis
      by (elim disjE) ((rule exI [of _ "[?tag]"], simp), (rule exI [of _ "[?tag, ?link]"], simp))
  qed
  then obtain more where "snd (syncRegularItem env job item w) = w1\<lparr>calls := calls w1 @ more\<rparr>"
    and "list_all ?ok more"
    by blast
  with w1 ok have "snd (syncRegularItem env job item w) = w\<lparr>calls := calls w @ (evs @ more)\<rparr>"
    and "list_all ?ok (evs @ more)"
    by simp_all
  then show ?thesis by blast
qed

lemma syncRegularItem_host [simp]:
  "item_state (snd (syncRegularItem env job item w)) = item_state w"
  "Zotero_Items (snd (syncRegularItem env job item w)) = Zotero_Items w"
  "lookups (snd (syncRegularItem env job item w)) = lookups w"
proof -
  obtain evs where "snd (syncRegularItem env job item w) = w\<lparr>calls := calls w @ evs\<rparr>"
    using syncRegularItem_world by blast
  then show "item_state (snd (syncRegularItem env job item w)) = item_state w"
    and "Zotero_Items (snd (syncRegularItem env job item w)) = Zotero_Items w"
    and "lookups (snd (syncRegularItem env job item w)) = lookups w"
    by simp_all
qed

subsection \<open>The note text\<close>

lemma notes_loop_eq:
  "notes_loop w acc noteIDs =
     (acc @ concat (map (\<lambda>noteItem. item_getNote (item_state w noteItem) @ note_separator)
                      (filter (\<lambda>n. n \<in> Zotero_Items w) noteIDs)),
      w\<lparr>lookups := lookups w @ map (\<lambda>n. Items_get (Some n)) noteIDs\<rparr>)"
proof (induction noteIDs arbitrary: w acc)
  case Nil
  show ?case by simp
next
  case (Cons noteID noteIDs)
  let ?w1 = "w\<lparr>lookups := lookups w @ [Items_get (Some noteID)]\<rparr>"
  show ?case
  proof (cases "noteID \<in> Zotero_Items w")
    case True
    then have "notes_loop w acc (noteID # noteIDs) =
        notes_loop ?w1 ((acc @ item_getNote (item_state ?w1 noteID)) @ note_separator) noteIDs"
      by (simp add: Zotero_Items_get_def)
    with True show ?thesis
      by (simp add: Cons.IH)
  next
    case False
    then have "notes_loop w acc (noteID # noteIDs) = notes_loop ?w1 acc noteIDs"
      by (simp add: Zotero_Items_get_def)
    with False show ?thesis
      by (simp add: Cons.IH)
  qed
qed

lemma syncItemAndNotes_unfold:
  "syncItemAndNotes env job item w =
     syncRegularItem env job item
       (assign_zotero_note item (sanitize env (terminated_note_text w item))
          (w\<lparr>lookups := lookups w @
                map (\<lambda>n. Items_get (Some n)) (item_getNotes (item_state w item))\<rparr>))"
  by (simp add: syncItemAndNotes_def notes_loop_eq terminated_note_text_def resolved_notes_def)

lemma syncItemAndNotes_state:
  "item_state (snd (syncItemAndNotes env job item w)) =
     (item_state w)(item :=
        (item_state w item)\<lparr>zotero_note := Some (sanitize env (terminated_note_text w item))\<rparr>)"
  by (simp add: syncItemAndNotes_unfold)

lemma syncItemAndNotes_calls:
  "\<exists>evs. calls (snd (syncItemAndNotes env job item w)) = calls w @ evs \<and>
         list_all (\<lambda>ev. event_item ev = None \<or> event_item ev = Some item) evs"
proof -
  let ?w' = "assign_zotero_note item (sanitize env (terminated_note_text w item))
      (w\<lparr>lookups := lookups w @
            map (\<lambda>n. Items_get (Some n)) (item_getNotes (item_state w item))\<rparr>)"
  obtain evs where "snd (syncRegularItem env job item ?w') = ?w'\<lparr>calls := calls ?w' @ evs\<rparr>"
    and "list_all (\<lambda>ev. event_item ev = None \<or> event_item ev = Some item) evs"
    using syncRegularItem_world by blast
  then have "calls (snd (syncItemAndNotes env job item w)) = calls w @ evs"
    and "list_all (\<lambda>ev. event_item ev = None \<or> event_item ev = Some item) evs"
    by (simp_all add: syncItemAndNotes_unfold)
  then show ?thesis by blast
qed

lemma terminated_note_text_cong:
  "item_state w' = item_state w \<Longrightarrow> Zotero_Items w' = Zotero_Items w \<Longrightarrow>
   terminated_note_text w' item = terminated_note_text w item"
  by (simp add: terminated_note_text_def resolved_notes_def)

subsection \<open>The iteration\<close>

lemma perform_try_note:
  assumes "item_isNote (item_state w note)"
  shows "perform_try env job note w =
           (case fst (Zotero_Items_get (item_parentID (item_state w note)) w) of
              Some parent \<Rightarrow>
                syncItemAndNotes env job parent (snd (Zotero_Items_get (item_parentID (item_state w note)) w))
            | None \<Rightarrow> (Inr (), snd (Zotero_Items_get (item_parentID (item_state w note)) w)))"
  using assms
  by (cases "Zotero_Items_get (item_parentID (item_state w note)) w")
     (simp add: perform_try_def split: option.splits)

lemma perform_try_calls:
  "\<exists>evs. calls (snd (perform_try env job item w)) = calls w @ evs"
proof (cases "item_isNote (item_state w item)")
  case True
  let ?w1 = "snd (Zotero_Items_get (item_parentID (item_state w item)) w)"
  have "\<exists>evs. calls (snd (syncItemAndNotes env job it ?w1)) = calls ?w1 @ evs" for it
    using syncItemAndNotes_calls by blast
  then show ?thesis
    by (simp add: perform_try_note [OF True] split: option.splits)
next
  case False
  then show ?thesis
    using syncItemAndNotes_calls [of env job item w] by (auto simp: perform_try_def)
qed

lemma perform_loop_raise:
  assumes "perform_try env job item (perform_begin job index item w) = (Inl error, w1)"
  shows "perform_loop env job index (item # rest) w = (Inl (new_ItemSyncError error item), w1)"
  using assms by simp

lemma perform_loop_append:
  assumes "perform_loop env job index pre w = (Inr u, w1)"
  shows "perform_loop env job index (pre @ rest) w =
         perform_loop env job (index + length pre) rest w1"
  using assms
proof (induction pre arbitrary: index w)
  case Nil
  then show ?case by simp
next
  case (Cons item pre)
  obtain r w' where step: "perform_try env job item (perform_begin job index item w) = (r, w')"
    by (cases "perform_try env job item (perform_begin job index item w)")
  show ?case
  proof (cases r)
    case (Inl error)
    with step Cons.prems show ?thesis by simp
  next
    case (Inr v)
    with step Cons.prems have
      "perform_loop env job (index + 1) pre (issue (ProgressWindow_updateProgress (index + 1)) w')
         = (Inr u, w1)"
      by simp
    from Cons.IH [OF this] step Inr show ?thesis by simp
  qed
qed

lemma performSyncJob_catch_last:
  "last (calls (performSyncJob_catch env cause failedItem w)) =
     ProgressWindow_fail (String_error cause) failedItem"
  by (simp add: performSyncJob_catch_def Let_def)

lemma performSyncJob_catch_state [simp]:
  "item_state (performSyncJob_catch env cause failedItem w) = item_state w"
  by (simp add: performSyncJob_catch_def Let_def split: option.splits)

subsection \<open>Evaluation on the concrete environment\<close>

lemmas demo_defs =
  demo_env_def demo_job_def demo_regular_def demo_note_def demo_world_def demo_state_def

lemmas sync_defs =
  perform_try_def perform_begin_def syncItemAndNotes_def assign_zotero_note_def
  syncRegularItem_def saveItemToDatabase_def pages_create_def sanitize_def
  Zotero_Items_get_def log_def issue_def

lemma demo_note_text_4:
  "terminated_note_text demo_world 4 =
     ''<p>first</p>'' @ note_separator @ ''second'' @ note_separator"
  by (simp add: terminated_note_text_def resolved_notes_def demo_defs)

lemma demo_sanitize_4:
  "sanitize demo_env (''<p>first</p>'' @ note_separator @ ''second'' @ note_separator) =
     ''first'' @ note_separator @ ''second'' @ note_separator"
  by (simp add: sanitize_def demo_env_def note_separator_def)

section \<open>The claims\<close>

text \<open>
  C1. For an item with a stored page ID (a string that is not empty) whose properties were
  built, the upsert first issues the update call with that ID, and the create call under
  the configured database follows, once, exactly when the update failed with the
  object-not-found code; no other call is issued.
\<close>

theorem saveItemToDatabase_update_then_create_iff_not_found:
  assumes "getNotionPageID env w item = Some pid" and "pid \<noteq> []"
    and "buildProperties env w (citationFormat job) (databaseProperties job) item
           (pageTitleFormat job) = Inr properties"
  shows "calls (snd (saveItemToDatabase env job item w)) =
           calls w @ Pages_update pid properties #
             (if failed_with_code env (notion_pages_update env w pid properties) ObjectNotFound
              then [Pages_create (databaseID job) properties] else [])"
  by (simp add: saveItemToDatabase_stored_update [OF assms] failed_with_code_def
      split: sum.splits)

text \<open>C1 on the items 2 (page deleted remotely), 1 (live page) and 3 (rate limited).\<close>

theorem saveItemToDatabase_update_then_create_iff_not_found_witness:
  "calls (snd (saveItemToDatabase demo_env (demo_job []) 2 demo_world)) =
     [Pages_update ''gone'' [(''Notes'', [])], Pages_create ''db'' [(''Notes'', [])]] \<and>
   calls (snd (saveItemToDatabase demo_env (demo_job []) 1 demo_world)) =
     [Pages_update ''p1'' [(''Notes'', [])]] \<and>
   calls (snd (saveItemToDatabase demo_env (demo_job []) 3 demo_world)) =
     [Pages_update ''busy'' [(''Notes'', [])]]"
  using
    saveItemToDatabase_update_then_create_iff_not_found
      [of demo_env demo_world 2 "''gone''" "demo_job []" "[(''Notes'', [])]"]
    saveItemToDatabase_update_then_create_iff_not_found
      [of demo_env demo_world 1 "''p1''" "demo_job []" "[(''Notes'', [])]"]
    saveItemToDatabase_update_then_create_iff_not_found
      [of demo_env demo_world 3 "''busy''" "demo_job []" "[(''Notes'', [])]"]
  by (simp add: demo_defs failed_with_code_def)

text \<open>
  C2. In a batch \<open>pre @ b # post\<close> (\<open>[A, B, C]\<close> is \<open>pre = [A]\<close>, \<open>post = [C]\<close>)
  where the items of \<open>pre\<close> are processed without error and the processing of \<open>b\<close>
  throws \<open>error\<close>: \<^verbatim>\<open>perform\<close> throws the sync error carrying \<open>error\<close> and \<open>b\<close>, in the
  world the failing step left; the items after \<open>b\<close> have no influence on the result;
  the calls made for \<open>pre\<close> are kept; when \<open>b\<close> is a regular item, the item the error
  carries has its note text assigned in that world; and the \<^verbatim>\<open>catch\<close> block of
  \<^verbatim>\<open>performSyncJob\<close> reports the failure with the cause's text and the item \<open>b\<close>,
  leaving the items as they are.
\<close>

theorem perform_aborts_at_first_error:
  assumes "job_items job = pre @ b # post"
    and "fst (perform_loop env job 0 pre w) = Inr ()"
    and "perform_try env job b
           (perform_begin job (length pre) b (snd (perform_loop env job 0 pre w))) = (Inl error, w2)"
  shows "perform env job w = (Inl \<lparr>ise_cause = error, ise_item = b\<rparr>, w2) \<and>
         perform_loop env job 0 (pre @ b # post) w = perform_loop env job 0 (pre @ [b]) w \<and>
         (\<exists>evs. calls w2 = calls (snd (perform_loop env job 0 pre w)) @ evs) \<and>
         (\<not> item_isNote (item_state (snd (perform_loop env job 0 pre w)) b) \<longrightarrow>
            zotero_note (item_state w2 b) =
              Some (sanitize env (terminated_note_text (snd (perform_loop env job 0 pre w)) b))) \<and>
         last (calls (performSyncJob_catch env error (Some b) w2)) =
           ProgressWindow_fail (String_error error) (Some b) \<and>
         item_state (performSyncJob_catch env error (Some b) w2) = item_state w2 \<and>
         (fst (Zotero_Items_get_array itemIDs w0) = pre @ b # post \<and>
          prepareSyncJob env (pre @ b # post)
            (issue (ProgressWindow_new (length (pre @ b # post)))
               (snd (Zotero_Items_get_array itemIDs w0))) = (Inr job, w) \<longrightarrow>
          performSyncJob env itemIDs w0 = performSyncJob_catch env error (Some b) w2)"
proof -
  let ?w1 = "snd (perform_loop env job 0 pre w)"
  let ?wb = "perform_begin job (length pre) b ?w1"
  have pre: "perform_loop env job 0 pre w = (Inr (), ?w1)"
    using assms(2) by (simp add: prod_eq_iff)
  have tail: "perform_loop env job 0 (pre @ rest) w = perform_loop env job (length pre) rest ?w1"
    for rest
    using perform_loop_append [OF pre, of rest] by simp
  have abort: "perform_loop env job (length pre) (b # rest) ?w1 =
      (Inl (new_ItemSyncError error b), w2)" for rest
    using assms(3) by (rule perform_loop_raise)
  have whole: "perform env job w = (Inl \<lparr>ise_cause = error, ise_item = b\<rparr>, w2)"
    using tail [of "b # post"] abort [of post] assms(1)
    by (simp add: perform_def new_ItemSyncError_def)
  have same: "perform_loop env job 0 (pre @ b # post) w = perform_loop env job 0 (pre @ [b]) w"
    using tail [of "b # post"] tail [of "[b]"] abort [of post] abort [of "[]"] by simp
  obtain a where a: "calls ?wb = calls ?w1 @ a"
    by (simp add: perform_begin_def Let_def)
  obtain c where "calls w2 = calls ?wb @ c"
    using perform_try_calls [of env job b ?wb] assms(3) by auto
  with a have kept: "\<exists>evs. calls w2 = calls ?w1 @ evs"
    by simp
  have assigned: "zotero_note (item_state w2 b) = Some (sanitize env (terminated_note_text ?w1 b))"
    if "\<not> item_isNote (item_state ?w1 b)"
  proof -
    from that assms(3) have "syncItemAndNotes env job b ?wb = (Inl error, w2)"
      by (simp add: perform_try_def)
    then have "w2 = snd (syncItemAndNotes env job b ?wb)"
      by simp
    moreover have "terminated_note_text ?wb b = terminated_note_text ?w1 b"
      by (rule terminated_note_text_cong) simp_all
    ultimately show ?thesis
      by (simp add: syncItemAndNotes_state)
  qed
  have report: "performSyncJob env itemIDs w0 = performSyncJob_catch env error (Some b) w2"
    if "fst (Zotero_Items_get_array itemIDs w0) = pre @ b # post \<and>
        prepareSyncJob env (pre @ b # post)
          (issue (ProgressWindow_new (length (pre @ b # post)))
             (snd (Zotero_Items_get_array itemIDs w0))) = (Inr job, w)"
    using that whole
    by (cases "Zotero_Items_get_array itemIDs w0") (simp add: performSyncJob_def Let_def)
  from whole same kept assigned report show ?thesis
    by (simp add: performSyncJob_catch_last)
qed

text \<open>C2 on the batch of items 1, 3 and 4: item 1 is updated, item 3 fails with its note text
  assigned, item 4 is never written.\<close>

theorem perform_aborts_at_first_error_witness:
  "fst (perform demo_env (demo_job demo_batch)
          (issue (Databases_retrieve ''db'') (issue (ProgressWindow_new 3)
             (snd (Zotero_Items_get_array [1, 3, 4] demo_world))))) =
     Inl \<lparr>ise_cause = demo_rate_limited, ise_item = 3\<rparr> \<and>
   last (calls (performSyncJob demo_env [1, 3, 4] demo_world)) =
     ProgressWindow_fail ''APIResponseError: Rate limited'' (Some 3) \<and>
   zotero_note (item_state (performSyncJob demo_env [1, 3, 4] demo_world) 3) = Some [] \<and>
   filter is_page_write (calls (performSyncJob demo_env [1, 3, 4] demo_world)) =
     [Pages_update ''p1'' [(''Notes'', [])], Pages_update ''busy'' [(''Notes'', [])]]"
proof -
  let ?job = "demo_job demo_batch"
  let ?start = "snd (Zotero_Items_get_array [1, 3, 4] demo_world)"
  let ?w = "issue (Databases_retrieve ''db'') (issue (ProgressWindow_new 3) ?start)"
  let ?w1 = "snd (perform_loop demo_env ?job 0 [1] ?w)"
  let ?w2 = "snd (perform_try demo_env ?job 3 (perform_begin ?job (length [1::nat]) 3 ?w1))"
  have batch: "job_items ?job = [1] @ 3 # [4]"
    by (simp add: demo_job_def demo_batch_def)
  have first: "fst (perform_loop demo_env ?job 0 [1] ?w) = Inr ()"
    by (simp add: sync_defs demo_defs Zotero_Items_get_array_def Let_def)
  have "fst (perform_try demo_env ?job 3 (perform_begin ?job (length [1::nat]) 3 ?w1)) =
      Inl demo_rate_limited"
    by (simp add: sync_defs demo_defs Zotero_Items_get_array_def demo_rate_limited_def Let_def)
  then have second: "perform_try demo_env ?job 3 (perform_begin ?job (length [1::nat]) 3 ?w1) =
      (Inl demo_rate_limited, ?w2)"
    by (simp add: prod_eq_iff)
  have regular: "\<not> item_isNote (item_state ?w1 3)"
    by (simp add: sync_defs demo_defs Zotero_Items_get_array_def Let_def)
  have text3: "sanitize demo_env (terminated_note_text ?w1 3) = []"
    by (simp add: terminated_note_text_def resolved_notes_def sync_defs demo_defs
        Zotero_Items_get_array_def Let_def)
  have resolved: "fst (Zotero_Items_get_array [1, 3, 4] demo_world) = [1] @ 3 # [4]"
    by (simp add: Zotero_Items_get_array_def demo_defs)
  have "fst (prepareSyncJob demo_env ([1] @ 3 # [4])
      (issue (ProgressWindow_new (length ([1] @ 3 # [4::nat]))) ?start)) = Inr ?job"
    and "snd (prepareSyncJob demo_env ([1] @ 3 # [4])
      (issue (ProgressWindow_new (length ([1] @ 3 # [4::nat]))) ?start)) = ?w"
    by (simp_all add: prepareSyncJob_def retrieveDatabaseProperties_def getCitationFormat_def
        getPageTitleFormat_def demo_defs demo_batch_def issue_def Zotero_Items_get_array_def)
  then have prepared: "prepareSyncJob demo_env ([1] @ 3 # [4])
      (issue (ProgressWindow_new (length ([1] @ 3 # [4::nat]))) ?start) = (Inr ?job, ?w)"
    by (simp only: prod_eq_iff fst_conv snd_conv simp_thms)
  note abort = perform_aborts_at_first_error
    [OF batch first second, where ?w0.0 = demo_world and itemIDs = "[1, 3, 4]"]
  from abort have "perform demo_env ?job ?w =
      (Inl \<lparr>ise_cause = demo_rate_limited, ise_item = 3\<rparr>, ?w2)"
    by blast
  then have raised: "fst (perform demo_env ?job ?w) =
      Inl \<lparr>ise_cause = demo_rate_limited, ise_item = 3\<rparr>"
    by simp
  from abort resolved prepared have job: "performSyncJob demo_env [1, 3, 4] demo_world =
      performSyncJob_catch demo_env demo_rate_limited (Some 3) ?w2"
    by blast
  from abort have "last (calls (performSyncJob_catch demo_env demo_rate_limited (Some 3) ?w2)) =
      ProgressWindow_fail (String_error demo_rate_limited) (Some 3)"
    by blast
  with job have reported: "last (calls (performSyncJob demo_env [1, 3, 4] demo_world)) =
      ProgressWindow_fail ''APIResponseError: Rate limited'' (Some 3)"
    by (simp add: String_error_def demo_rate_limited_def)
  from abort regular have "zotero_note (item_state ?w2 3) =
      Some (sanitize demo_env (terminated_note_text ?w1 3))"
    by blast
  then have "zotero_note (item_state ?w2 3) = Some []"
    by (simp only: text3)
  then have live: "zotero_note (item_state (performSyncJob demo_env [1, 3, 4] demo_world) 3) =
      Some []"
    by (simp only: job performSyncJob_catch_state)
  have "filter is_page_write (calls (performSyncJob_catch demo_env demo_rate_limited (Some 3) ?w2)) =
      [Pages_update ''p1'' [(''Notes'', [])], Pages_update ''busy'' [(''Notes'', [])]]"
    by (simp add: performSyncJob_catch_def sync_defs demo_defs Zotero_Items_get_array_def Let_def)
  with job raised reported live show ?thesis
    by simp
qed

text \<open>
  C3, as stated, fails when the tag call rejects: for the full page of item 1 the sync
  throws the error of the tag call and saves no link attachment, and for the partial page
  of item 5 the error thrown is that of the tag call, not the one about the read-content
  capability.
\<close>

theorem syncRegularItem_back_link_despite_tag_counterexample:
  "fst (saveItemToDatabase demo_env_tag_rejects (demo_job []) 1 demo_world) =
     Inr (FullPage ''p1'' ''https://www.notion.so/p1'') \<and>
   fst (syncRegularItem demo_env_tag_rejects (demo_job []) 1 demo_world) = Inl demo_tag_error \<and>
   filter is_link_attachment
     (calls (snd (syncRegularItem demo_env_tag_rejects (demo_job []) 1 demo_world))) = [] \<and>
   fst (saveItemToDatabase demo_env_tag_rejects (demo_job []) 5 demo_hidden_world) =
     Inr (PartialPage ''new'') \<and>
   fst (syncRegularItem demo_env_tag_rejects (demo_job []) 5 demo_hidden_world) =
     Inl demo_tag_error \<and>
   err_message demo_tag_error \<noteq> read_capability_message"
  by (simp add: syncRegularItem_def saveItemToDatabase_def pages_create_def
      demo_env_tag_rejects_def demo_hidden_world_def demo_tag_error_def
      read_capability_message_def demo_defs)

text \<open>
  C3, as amended. After an upsert that returned a response and a tag call that returned:
  for a full page the link attachment with the converted URL is saved right after the tag;
  for any other response \<^verbatim>\<open>syncRegularItem\<close> throws the \<^verbatim>\<open>Error\<close> whose message tells the
  user to enable the "read content" capability, and the sync has added no link-attachment
  call.
\<close>

theorem syncRegularItem_back_link_iff_full_page:
  assumes \<open>saveItemToDatabase env job item w = (Inr response, w1)\<close>
    and \<open>saveNotionTag env w1 item = None\<close>
  shows \<open>if isFullPage response
         then calls (snd (syncRegularItem env job item w)) =
                calls w1 @ [SaveNotionTag item,
                  SaveNotionLinkAttachment item (convertWebURLToAppURL env (page_url response))]
         else fst (syncRegularItem env job item w) =
                Inl (Thrown ''Error''
                  (''Failed to create Notion link attachment. '' @
                   ''This will result in duplicate Notion pages. '' @
                   ''Please ensure that the "read content" capability is enabled '' @
                   ''for the Notero integration at www.notion.so/my-integrations.'') None) \<and>
              filter is_link_attachment (calls (snd (syncRegularItem env job item w))) =
                filter is_link_attachment (calls w)\<close>
proof (cases "isFullPage response")
  case True
  then show ?thesis
    by (simp add: syncRegularItem_after_upsert [OF assms])
next
  case False
  have "filter is_link_attachment (calls w1) = filter is_link_attachment (calls w)"
    using saveItemToDatabase_link_attachments [of env job item w] assms(1) by simp
  with False show ?thesis
    by (simp add: syncRegularItem_after_upsert [OF assms] new_Error_def
        read_capability_message_def)
qed

text \<open>C3 as amended, on item 5 (partial page) and item 1 (full page).\<close>

theorem syncRegularItem_back_link_iff_full_page_witness:
  \<open>fst (syncRegularItem demo_env (demo_job []) 5 demo_hidden_world) =
     Inl (Thrown ''Error''
       (''Failed to create Notion link attachment. '' @
        ''This will result in duplicate Notion pages. '' @
        ''Please ensure that the "read content" capability is enabled '' @
        ''for the Notero integration at www.notion.so/my-integrations.'') None) \<and>
   filter is_link_attachment
     (calls (snd (syncRegularItem demo_env (demo_job []) 5 demo_hidden_world))) = [] \<and>
   calls (snd (syncRegularItem demo_env (demo_job []) 1 demo_world)) =
     [Pages_update ''p1'' [(''Notes'', [])], SaveNotionTag 1,
      SaveNotionLinkAttachment 1 ''notion://www.notion.so/p1'']\<close>
  using
    syncRegularItem_back_link_iff_full_page
      [of demo_env "demo_job []" 5 demo_hidden_world "PartialPage ''new''"
        "issue (Pages_create ''db'' [(''Notes'', ''hidden'' @ note_separator)]) demo_hidden_world"]
    syncRegularItem_back_link_iff_full_page
      [of demo_env "demo_job []" 1 demo_world "FullPage ''p1'' ''https://www.notion.so/p1''"
        "issue (Pages_update ''p1'' [(''Notes'', [])]) demo_world"]
  by (simp add: demo_defs demo_hidden_world_def saveItemToDatabase_def pages_create_def)

text \<open>
  C4. For a note item in the iteration, the parent is looked up. When it does not resolve,
  the step throws nothing, issues no call and changes no item, and the loop goes on with
  the next item; when it resolves, the step is one sync of the parent, and every item-data
  call it makes is on the parent.
\<close>

theorem perform_note_syncs_parent_or_nothing:
  assumes "item_isNote (item_state w note)"
  shows "case fst (Zotero_Items_get (item_parentID (item_state w note)) w) of
           None \<Rightarrow>
             fst (perform_try env job note w) = Inr () \<and>
             calls (snd (perform_try env job note w)) = calls w \<and>
             item_state (snd (perform_try env job note w)) = item_state w \<and>
             perform_loop env job index (note # rest) w =
               perform_loop env job (index + 1) rest
                 (issue (ProgressWindow_updateProgress (index + 1))
                    (snd (Zotero_Items_get (item_parentID (item_state w note))
                       (perform_begin job index note w))))
         | Some parent \<Rightarrow>
             perform_try env job note w =
               syncItemAndNotes env job parent
                 (snd (Zotero_Items_get (item_parentID (item_state w note)) w)) \<and>
             (\<exists>evs. calls (snd (perform_try env job note w)) = calls w @ evs \<and>
                list_all (\<lambda>ev. event_item ev = None \<or> event_item ev = Some parent) evs)"
proof (cases "fst (Zotero_Items_get (item_parentID (item_state w note)) w)")
  case None
  let ?wb = "perform_begin job index note w"
  have note_b: "item_isNote (item_state ?wb note)"
    using assms by simp
  have "fst (Zotero_Items_get (item_parentID (item_state ?wb note)) ?wb) = None"
    using None by (simp cong: option.case_cong)
  then have "perform_try env job note ?wb =
      (Inr (), snd (Zotero_Items_get (item_parentID (item_state w note)) ?wb))"
    by (simp add: perform_try_note [OF note_b])
  then have "perform_loop env job index (note # rest) w =
      perform_loop env job (index + 1) rest
        (issue (ProgressWindow_updateProgress (index + 1))
           (snd (Zotero_Items_get (item_parentID (item_state w note)) ?wb)))"
    by simp
  with None show ?thesis
    by (simp add: perform_try_note [OF assms])
next
  case (Some parent)
  let ?wl = "snd (Zotero_Items_get (item_parentID (item_state w note)) w)"
  from Some have "perform_try env job note w = syncItemAndNotes env job parent ?wl"
    by (simp add: perform_try_note [OF assms])
  moreover have "\<exists>evs. calls (snd (syncItemAndNotes env job parent ?wl)) = calls w @ evs \<and>
      list_all (\<lambda>ev. event_item ev = None \<or> event_item ev = Some parent) evs"
    using syncItemAndNotes_calls [of env job parent ?wl] by simp
  ultimately show ?thesis
    using Some by simp
qed

text \<open>C4 on note 20 (parent 21 does not resolve) and note 10 (parent 4).\<close>

theorem perform_note_syncs_parent_or_nothing_witness:
  "fst (perform_try demo_env (demo_job []) 20 demo_world) = Inr () \<and>
   calls (snd (perform_try demo_env (demo_job []) 20 demo_world)) = [] \<and>
   perform_try demo_env (demo_job []) 10 demo_world =
     syncItemAndNotes demo_env (demo_job []) 4 (snd (Zotero_Items_get (Some 4) demo_world)) \<and>
   calls (snd (perform_try demo_env (demo_job []) 10 demo_world)) =
     [Pages_create ''db'' [(''Notes'', ''first'' @ note_separator @ ''second'' @ note_separator)],
      SaveNotionTag 4, SaveNotionLinkAttachment 4 ''notion://www.notion.so/new'']"
proof -
  have orphan: "item_isNote (item_state demo_world 20)"
    and "fst (Zotero_Items_get (item_parentID (item_state demo_world 20)) demo_world) = None"
    and "calls demo_world = []"
    by (simp_all add: demo_defs)
  with perform_note_syncs_parent_or_nothing
      [OF orphan, where env = demo_env and job = "demo_job []" and index = 0 and rest = "[]"]
  have first: "fst (perform_try demo_env (demo_job []) 20 demo_world) = Inr () \<and>
      calls (snd (perform_try demo_env (demo_job []) 20 demo_world)) = []"
    by simp
  let ?wl = "snd (Zotero_Items_get (Some 4) demo_world)"
  have child: "item_isNote (item_state demo_world 10)"
    and parent: "item_parentID (item_state demo_world 10) = Some 4"
    and "fst (Zotero_Items_get (Some 4) demo_world) = Some 4"
    by (simp_all add: demo_defs)
  with perform_note_syncs_parent_or_nothing
      [OF child, where env = demo_env and job = "demo_job []" and index = 0 and rest = "[]"]
  have second: "perform_try demo_env (demo_job []) 10 demo_world =
      syncItemAndNotes demo_env (demo_job []) 4 ?wl"
    by simp
  have "terminated_note_text ?wl 4 = terminated_note_text demo_world 4"
    by (rule terminated_note_text_cong) simp_all
  then have text4: "terminated_note_text ?wl 4 =
      ''<p>first</p>'' @ note_separator @ ''second'' @ note_separator"
    by (simp only: demo_note_text_4)
  have "calls (snd (syncItemAndNotes demo_env (demo_job []) 4 ?wl)) =
     [Pages_create ''db'' [(''Notes'', ''first'' @ note_separator @ ''second'' @ note_separator)],
      SaveNotionTag 4, SaveNotionLinkAttachment 4 ''notion://www.notion.so/new'']"
    unfolding syncItemAndNotes_unfold text4 demo_sanitize_4
    by (simp add: syncRegularItem_def saveItemToDatabase_def pages_create_def demo_env_def
        demo_job_def demo_world_def note_separator_def)
  with first second show ?thesis by simp
qed

text \<open>
  C5, as stated, fails: with the single note \<open>abc\<close> the stored text ends with the
  separator, which neither reading of the specification has.
\<close>

theorem syncItemAndNotes_joined_note_text_counterexample:
  "stored_zotero_note (snd (syncItemAndNotes demo_env (demo_job []) 6 demo_world)) 6
     \<noteq> Some (spec_joined_plain_text demo_env demo_world 6) \<and>
   stored_zotero_note (snd (syncItemAndNotes demo_env (demo_job []) 6 demo_world)) 6
     \<noteq> Some (spec_plain_text_of_joined demo_env demo_world 6)"
proof -
  have resolved: "resolved_notes demo_world 6 = [13]"
    and content: "item_getNote (item_state demo_world 13) = ''abc''"
    by (simp_all add: resolved_notes_def demo_defs)
  have "stored_zotero_note (snd (syncItemAndNotes demo_env (demo_job []) 6 demo_world)) 6 =
      Some (''abc'' @ note_separator)"
    by (simp add: stored_zotero_note_def syncItemAndNotes_state terminated_note_text_def
        resolved content)
       (simp add: sanitize_def demo_env_def note_separator_def)
  moreover have "spec_joined_plain_text demo_env demo_world 6 = ''abc''"
    by (simp add: spec_joined_plain_text_def resolved content)
       (simp add: sanitize_def demo_env_def)
  moreover have "spec_plain_text_of_joined demo_env demo_world 6 = ''abc''"
    by (simp add: spec_plain_text_of_joined_def resolved content)
       (simp add: sanitize_def demo_env_def)
  ultimately show ?thesis by (simp add: note_separator_def)
qed

text \<open>
  C5, as amended. The text stored on the transient note field is the sanitized text of the
  string built from the attached notes that resolve, in the order of the listing, each
  note followed by the separator.
\<close>

theorem syncItemAndNotes_stores_terminated_note_text:
  "stored_zotero_note (snd (syncItemAndNotes env job item w)) item =
     Some (sanitize env (terminated_note_text w item))"
  by (simp add: stored_zotero_note_def syncItemAndNotes_state)

text \<open>C5 as amended, on item 4 with the notes 10 and 11.\<close>

theorem syncItemAndNotes_stores_terminated_note_text_witness:
  "stored_zotero_note (snd (syncItemAndNotes demo_env (demo_job []) 4 demo_world)) 4 =
     Some (''first'' @ note_separator @ ''second'' @ note_separator)"
  using syncItemAndNotes_stores_terminated_note_text [of demo_env "demo_job []" 4 demo_world]
  unfolding demo_note_text_4 demo_sanitize_4
  by simp

text \<open>
  C6, as stated, fails: on the empty set the lookup \<^verbatim>\<open>Zotero.Items.get\<close> is still called,
  before the test for emptiness.
\<close>

theorem performSyncJob_empty_lookup_counterexample:
  "performSyncJob demo_env [] demo_world \<noteq> demo_world \<and>
   lookups demo_world = [] \<and>
   lookups (performSyncJob demo_env [] demo_world) = [Items_get_array []]"
proof -
  have made: "lookups (performSyncJob demo_env [] demo_world) = [Items_get_array []]"
    and none: "lookups demo_world = []"
    by (simp_all add: performSyncJob_def Zotero_Items_get_array_def demo_world_def)
  then have "lookups (performSyncJob demo_env [] demo_world) \<noteq> lookups demo_world"
    by simp
  then have "performSyncJob demo_env [] demo_world \<noteq> demo_world"
    by auto
  with made none show ?thesis by simp
qed

text \<open>
  C6, as amended. On the empty set of item IDs \<^verbatim>\<open>performSyncJob\<close> makes one lookup, on the
  empty array, which resolves no item, and returns: the world differs by that lookup only,
  so there is no call to the remote, no progress window, no log line and no change to an
  item.
\<close>

theorem performSyncJob_empty:
  "performSyncJob env [] w = w\<lparr>lookups := lookups w @ [Items_get_array []]\<rparr> \<and>
   fst (Zotero_Items_get_array [] w) = [] \<and>
   calls (performSyncJob env [] w) = calls w \<and>
   item_state (performSyncJob env [] w) = item_state w"
  by (simp add: performSyncJob_def Zotero_Items_get_array_def)

text \<open>C6 as amended, on the concrete library.\<close>

theorem performSyncJob_empty_witness:
  "lookups (performSyncJob demo_env [] demo_world) = [Items_get_array []] \<and>
   calls (performSyncJob demo_env [] demo_world) = []"
  using performSyncJob_empty [of demo_env demo_world]
  by (simp add: demo_world_def)

text \<open>
  C7. When the update of a stored page fails with an error that does not carry the
  object-not-found code, the upsert throws that very error after the one update call: no
  retry, no create call. The per-item sync throws it unchanged as well.
\<close>

theorem saveItemToDatabase_other_error_propagates:
  assumes "getNotionPageID env w item = Some pid" and "pid \<noteq> []"
    and "buildProperties env w (citationFormat job) (databaseProperties job) item
           (pageTitleFormat job) = Inr properties"
    and "notion_pages_update env w pid properties = Inl error"
    and "\<not> isNotionErrorWithCode env error ObjectNotFound"
  shows "saveItemToDatabase env job item w = (Inl error, issue (Pages_update pid properties) w) \<and>
         filter is_page_write (calls (snd (saveItemToDatabase env job item w))) =
           filter is_page_write (calls w) @ [Pages_update pid properties] \<and>
         syncRegularItem env job item w = (Inl error, issue (Pages_update pid properties) w)"
proof -
  have "saveItemToDatabase env job item w = (Inl error, issue (Pages_update pid properties) w)"
    using assms(4,5) by (simp add: saveItemToDatabase_stored_update [OF assms(1-3)])
  then show ?thesis by (simp add: syncRegularItem_def)
qed

text \<open>C7 on item 3, whose update is rate limited.\<close>

theorem saveItemToDatabase_other_error_propagates_witness:
  "saveItemToDatabase demo_env (demo_job []) 3 demo_world =
     (Inl demo_rate_limited, issue (Pages_update ''busy'' [(''Notes'', [])]) demo_world) \<and>
   filter is_page_write (calls (snd (saveItemToDatabase demo_env (demo_job []) 3 demo_world))) =
     [Pages_update ''busy'' [(''Notes'', [])]] \<and>
   syncRegularItem demo_env (demo_job []) 3 demo_world =
     (Inl demo_rate_limited, issue (Pages_update ''busy'' [(''Notes'', [])]) demo_world)"
  using saveItemToDatabase_other_error_propagates
    [of demo_env demo_world 3 "''busy''" "demo_job []" "[(''Notes'', [])]" demo_rate_limited]
  by (simp add: demo_defs demo_rate_limited_def)

text \<open>
  C8. The citation format is the quick-copy preference when that is a string that is not
  empty, the constant \<^verbatim>\<open>APA_STYLE\<close> when no such string is stored, and it is the format
  of the job that \<^verbatim>\<open>prepareSyncJob\<close> builds.
\<close>

theorem getCitationFormat_quickCopy_or_default:
  "(Zotero_Prefs w ''export.quickCopy.setting'' = Some (PrefString format) \<and> format \<noteq> []
      \<longrightarrow> getCitationFormat env w = format) \<and>
   ((\<forall>s. Zotero_Prefs w ''export.quickCopy.setting'' = Some (PrefString s) \<longrightarrow> s = [])
      \<longrightarrow> getCitationFormat env w = APA_STYLE env) \<and>
   (prepareSyncJob env items w = (Inr job, w') \<longrightarrow> citationFormat job = getCitationFormat env w)"
proof (intro conjI impI)
  assume "Zotero_Prefs w ''export.quickCopy.setting'' = Some (PrefString format) \<and> format \<noteq> []"
  then show "getCitationFormat env w = format"
    by (simp add: getCitationFormat_def)
next
  assume "\<forall>s. Zotero_Prefs w ''export.quickCopy.setting'' = Some (PrefString s) \<longrightarrow> s = []"
  then show "getCitationFormat env w = APA_STYLE env"
    by (auto simp: getCitationFormat_def split: option.splits PrefValue.splits)
next
  assume "prepareSyncJob env items w = (Inr job, w')"
  then show "citationFormat job = getCitationFormat env w"
    by (auto simp: prepareSyncJob_def retrieveDatabaseProperties_def getCitationFormat_def
        split: option.splits sum.splits)
qed

text \<open>C8 on a world with a string preference and a world with a numeric one.\<close>

theorem getCitationFormat_quickCopy_or_default_witness:
  "getCitationFormat demo_env (demo_prefs_world (Some (PrefString demo_ieee))) = demo_ieee \<and>
   getCitationFormat demo_env (demo_prefs_world (Some (PrefNumber 3))) = APA_STYLE demo_env \<and>
   map_sum id citationFormat
     (fst (prepareSyncJob demo_env [] (demo_prefs_world (Some (PrefString demo_ieee)))))
     = Inr demo_ieee"
proof -
  let ?w = "demo_prefs_world (Some (PrefString demo_ieee))"
  let ?job = "\<lparr>citationFormat = demo_ieee, databaseID = ''db'',
     databaseProperties = [(''Name'', ''title'')], job_items = [], pageTitleFormat = itemTitle\<rparr>"
  have pref: "Zotero_Prefs ?w ''export.quickCopy.setting'' = Some (PrefString demo_ieee)"
    and nonempty: "demo_ieee \<noteq> []"
    by (simp_all add: demo_prefs_world_def demo_ieee_def)
  have other: "\<forall>s. Zotero_Prefs (demo_prefs_world (Some (PrefNumber 3)))
      ''export.quickCopy.setting'' = Some (PrefString s) \<longrightarrow> s = []"
    by (simp add: demo_prefs_world_def)
  have format: "getCitationFormat demo_env ?w = demo_ieee"
    using getCitationFormat_quickCopy_or_default [of ?w demo_ieee demo_env "[]" ?job ?w]
      pref nonempty by blast
  have prepare: "prepareSyncJob demo_env [] ?w = (Inr ?job, issue (Databases_retrieve ''db'') ?w)"
    by (simp add: prepareSyncJob_def retrieveDatabaseProperties_def getPageTitleFormat_def
        getCitationFormat_def demo_prefs_world_def demo_ieee_def demo_env_def)
  have "citationFormat ?job = getCitationFormat demo_env ?w"
    using getCitationFormat_quickCopy_or_default
      [of ?w demo_ieee demo_env "[]" ?job "issue (Databases_retrieve ''db'') ?w"] prepare
    by blast
  moreover have "getCitationFormat demo_env (demo_prefs_world (Some (PrefNumber 3))) =
      APA_STYLE demo_env"
    using getCitationFormat_quickCopy_or_default
      [of "demo_prefs_world (Some (PrefNumber 3))" demo_ieee demo_env "[]" ?job ?w] other
    by blast
  ultimately show ?thesis
    using format prepare by simp
qed

text \<open>
  C9. When the upsert returned a response that is not a full page and the tag call returned,
  the read-capability error is thrown in a world whose last call is the tag call on the
  item: the tag is kept although the sync of the item failed.
\<close>

theorem syncRegularItem_tag_precedes_read_capability_error:
  assumes "saveItemToDatabase env job item w = (Inr response, w1)"
    and "\<not> isFullPage response"
    and "saveNotionTag env w1 item = None"
  shows "syncRegularItem env job item w =
           (Inl (new_Error read_capability_message), issue (SaveNotionTag item) w1) \<and>
         calls (snd (syncRegularItem env job item w)) = calls w1 @ [SaveNotionTag item]"
  using assms(2) by (simp add: syncRegularItem_after_upsert [OF assms(1,3)])

text \<open>C9 on item 5, for which the remote answers with a partial page.\<close>

theorem syncRegularItem_tag_precedes_read_capability_error_witness:
  "syncRegularItem demo_env (demo_job []) 5 demo_hidden_world =
     (Inl (new_Error read_capability_message),
      issue (SaveNotionTag 5)
        (issue (Pages_create ''db'' [(''Notes'', ''hidden'' @ note_separator)])
           demo_hidden_world)) \<and>
   calls (snd (syncRegularItem demo_env (demo_job []) 5 demo_hidden_world)) =
     [Pages_create ''db'' [(''Notes'', ''hidden'' @ note_separator)], SaveNotionTag 5]"
  using syncRegularItem_tag_precedes_read_capability_error
      [of demo_env "demo_job []" 5 demo_hidden_world "PartialPage ''new''"
        "issue (Pages_create ''db'' [(''Notes'', ''hidden'' @ note_separator)]) demo_hidden_world"]
  by (simp add: demo_defs demo_hidden_world_def saveItemToDatabase_def pages_create_def)

text \<open>
  C10. The sync of an item runs the upsert in the world in which the note field of the item
  is assigned, and the item holds the assigned text whatever the upsert does. With no
  attached note, and a parser that finds no text in the empty document, the assigned
  text is empty, whatever the field held before. A note ID that does not resolve adds
  nothing to the text.
\<close>

theorem syncItemAndNotes_assigns_note_field:
  "syncItemAndNotes env job item w =
     syncRegularItem env job item
       (assign_zotero_note item
          (sanitize env (fst (notes_loop w [] (item_getNotes (item_state w item)))))
          (snd (notes_loop w [] (item_getNotes (item_state w item))))) \<and>
   stored_zotero_note
     (assign_zotero_note item
        (sanitize env (fst (notes_loop w [] (item_getNotes (item_state w item)))))
        (snd (notes_loop w [] (item_getNotes (item_state w item))))) item =
     Some (sanitize env (fst (notes_loop w [] (item_getNotes (item_state w item))))) \<and>
   stored_zotero_note (snd (syncItemAndNotes env job item w)) item =
     Some (sanitize env (fst (notes_loop w [] (item_getNotes (item_state w item))))) \<and>
   (item_getNotes (item_state w item) = [] \<and> body_textContent env [] \<in> {None, Some []} \<longrightarrow>
      stored_zotero_note (snd (syncItemAndNotes env job item w)) item = Some []) \<and>
   (noteID \<notin> Zotero_Items w \<longrightarrow>
      fst (notes_loop w acc (pre @ noteID # post)) = fst (notes_loop w acc (pre @ post)))"
proof (intro conjI impI)
  let ?text = "fst (notes_loop w [] (item_getNotes (item_state w item)))"
  let ?wl = "snd (notes_loop w [] (item_getNotes (item_state w item)))"
  show "syncItemAndNotes env job item w =
     syncRegularItem env job item (assign_zotero_note item (sanitize env ?text) ?wl)"
    by (simp add: syncItemAndNotes_def split: prod.splits)
  show "stored_zotero_note (assign_zotero_note item (sanitize env ?text) ?wl) item =
     Some (sanitize env ?text)"
    by (simp add: stored_zotero_note_def)
  show stored: "stored_zotero_note (snd (syncItemAndNotes env job item w)) item =
     Some (sanitize env ?text)"
    by (simp add: stored_zotero_note_def syncItemAndNotes_state terminated_note_text_def
        resolved_notes_def notes_loop_eq)
  show "stored_zotero_note (snd (syncItemAndNotes env job item w)) item = Some []"
    if "item_getNotes (item_state w item) = [] \<and> body_textContent env [] \<in> {None, Some []}"
    using that stored by (auto simp: sanitize_def)
  show "fst (notes_loop w acc (pre @ noteID # post)) = fst (notes_loop w acc (pre @ post))"
    if "noteID \<notin> Zotero_Items w"
    using that by (simp add: notes_loop_eq)
qed

text \<open>C10 on item 1 (no notes, a prior value in the field) and on the listing 10, 99, 11.\<close>

theorem syncItemAndNotes_assigns_note_field_witness:
  "stored_zotero_note
     (snd (syncItemAndNotes demo_env (demo_job []) 1
        (assign_zotero_note 1 ''stale'' demo_world))) 1 = Some [] \<and>
   fst (notes_loop demo_world [] ([10] @ 99 # [11])) = fst (notes_loop demo_world [] ([10] @ [11])) \<and>
   fst (notes_loop demo_world [] [10, 99, 11]) =
     ''<p>first</p>'' @ note_separator @ ''second'' @ note_separator"
proof -
  let ?w = "assign_zotero_note 1 ''stale'' demo_world"
  note assigned = syncItemAndNotes_assigns_note_field
      [of demo_env "demo_job []" 1 ?w 99 "[]" "[10]" "[11]"]
  note skipped = syncItemAndNotes_assigns_note_field
      [of demo_env "demo_job []" 1 demo_world 99 "[]" "[10]" "[11]"]
  have no_notes: "item_getNotes (item_state ?w 1) = [] \<and>
      body_textContent demo_env [] \<in> {None, Some []}"
    by (simp add: demo_defs)
  have unresolved: "99 \<notin> Zotero_Items demo_world"
    by (simp add: demo_defs)
  from assigned no_notes have empty:
    "stored_zotero_note (snd (syncItemAndNotes demo_env (demo_job []) 1 ?w)) 1 = Some []"
    by blast
  from skipped unresolved have same:
    "fst (notes_loop demo_world [] ([10] @ 99 # [11])) = fst (notes_loop demo_world [] ([10] @ [11]))"
    by blast
  have "fst (notes_loop demo_world [] [10, 99, 11]) =
      ''<p>first</p>'' @ note_separator @ ''second'' @ note_separator"
    by (simp add: notes_loop_eq demo_defs)
  with empty same show ?thesis
    by blast
qed

end
